theory Spec2Isabelle
  imports Main "HOL-Library.Extended_Nat" "HOL-Library.AList" "HOL-Library.Word"
begin

section \<open>Editions and their limits (src/shared/license.ts)\<close>

datatype Edition = community | pro | enterprise

text \<open>
  One row of \<open>EDITION_LIMITS\<close>. A JavaScript number that may be \<open>Infinity\<close> is an
  extended natural number.
\<close>

record EditionLimits =
  maxSplitPanels :: enat
  maxQuickCommands :: enat
  maxRemoteConnections :: enat
  searchEnabled :: bool
  teamCollaboration :: bool
  gitIntegration :: bool
  customThemes :: bool
  ssoEnabled :: bool
  auditLog :: bool

fun EDITION_LIMITS :: "Edition \<Rightarrow> EditionLimits" where
  "EDITION_LIMITS community =
     \<lparr>maxSplitPanels = 4, maxQuickCommands = 5, maxRemoteConnections = 1,
      searchEnabled = True, teamCollaboration = False, gitIntegration = False,
      customThemes = False, ssoEnabled = False, auditLog = False\<rparr>"
| "EDITION_LIMITS pro =
     \<lparr>maxSplitPanels = \<infinity>, maxQuickCommands = \<infinity>, maxRemoteConnections = 10,
      searchEnabled = True, teamCollaboration = True, gitIntegration = True,
      customThemes = True, ssoEnabled = False, auditLog = False\<rparr>"
| "EDITION_LIMITS enterprise =
     \<lparr>maxSplitPanels = \<infinity>, maxQuickCommands = \<infinity>, maxRemoteConnections = \<infinity>,
      searchEnabled = True, teamCollaboration = True, gitIntegration = True,
      customThemes = True, ssoEnabled = True, auditLog = True\<rparr>"

text \<open>
  \<open>getMaxConnections\<close> of src/main/webTerminal.ts. The module variable \<open>currentEdition\<close>
  that \<open>getEdition()\<close> reads is the argument.
\<close>

definition getMaxConnections :: "Edition \<Rightarrow> nat" where
  "getMaxConnections edition =
     (let limit = maxRemoteConnections (EDITION_LIMITS edition)
      in if limit = \<infinity> then 999 else the_enat limit)"

section \<open>The panel and layout store (the split-layout slice of the zustand store)\<close>

datatype Direction = horizontal | vertical | grid

text \<open>
  \<open>SplitLayoutType\<close>: the fields \<open>name\<close> and \<open>icon\<close> are display text only and are
  left out. The source's field \<open>id\<close> is \<open>id_layout\<close> here and \<open>panels\<close> is
  \<open>panels_layout\<close>, since \<open>id\<close> is a constant of HOL and \<open>panels\<close> is also a field of
  the layout state. Ratios are JavaScript numbers; the store copies them and does no
  arithmetic on them, so they are rationals here.
\<close>

record SplitLayoutType =
  id_layout :: string
  panels_layout :: nat
  direction_layout :: Direction
  defaultRatios :: "rat list"

record SplitPanelState =
  id_panel :: string
  terminalId :: "string option"
  ratio :: rat

record SplitLayoutState =
  layoutId :: string
  panels :: "SplitPanelState list"
  direction :: Direction

definition SPLIT_LAYOUTS :: "SplitLayoutType list" where
  "SPLIT_LAYOUTS =
    [\<lparr>id_layout = ''single'', panels_layout = 1, direction_layout = horizontal,
      defaultRatios = [100]\<rparr>,
     \<lparr>id_layout = ''horizontal-2'', panels_layout = 2, direction_layout = horizontal,
      defaultRatios = [50, 50]\<rparr>,
     \<lparr>id_layout = ''vertical-2'', panels_layout = 2, direction_layout = vertical,
      defaultRatios = [50, 50]\<rparr>,
     \<lparr>id_layout = ''horizontal-3'', panels_layout = 3, direction_layout = horizontal,
      defaultRatios = [33, 34, 33]\<rparr>,
     \<lparr>id_layout = ''grid-4'', panels_layout = 4, direction_layout = grid,
      defaultRatios = [25, 25, 25, 25]\<rparr>,
     \<lparr>id_layout = ''left-main'', panels_layout = 3, direction_layout = horizontal,
      defaultRatios = [60, 20, 20]\<rparr>,
     \<lparr>id_layout = ''top-main'', panels_layout = 3, direction_layout = vertical,
      defaultRatios = [60, 20, 20]\<rparr>]"

text \<open>The part of the store's state that the layout actions read and write.\<close>

record AppState =
  splitLayout :: SplitLayoutState
  activePanelId :: string
  activeTerminalId :: string

text \<open>The store's initial layout state.\<close>

definition initialAppState :: AppState where
  "initialAppState =
     \<lparr>splitLayout = \<lparr>layoutId = ''single'',
                      panels = [\<lparr>id_panel = ''panel-0'', terminalId = None, ratio = 100\<rparr>],
                      direction = horizontal\<rparr>,
      activePanelId = ''panel-0'',
      activeTerminalId = ''default''\<rparr>"

text \<open>Decimal rendering of an array index, as the template literal \<open>`panel-${index}`\<close> does.\<close>

fun digit_char :: "nat \<Rightarrow> char" where
  "digit_char n = ''0123456789'' ! (n mod 10)"

function string_of_index :: "nat \<Rightarrow> string" where
  "string_of_index n =
     (if n < 10 then [digit_char n] else string_of_index (n div 10) @ [digit_char n])"
  by pat_completeness auto
termination
  by (relation "measure id") auto

declare string_of_index.simps [simp del]

text \<open>
  Array indexing \<open>xs[index]\<close> gives \<open>undefined\<close> out of range; \<open>None\<close> stands for both
  \<open>null\<close> and \<open>undefined\<close>, and \<open>nullish\<close> is the operator \<open>??\<close>.
\<close>

definition js_index :: "'a option list \<Rightarrow> nat \<Rightarrow> 'a option" where
  "js_index xs index = (if index < length xs then xs ! index else None)"

definition nullish :: "'a option \<Rightarrow> 'a option \<Rightarrow> 'a option" where
  "nullish a b = (case a of None \<Rightarrow> b | Some v \<Rightarrow> Some v)"

text \<open>
  The terminal ids collected from the current panels, in panel order, by
  \<open>currentPanels.map(p => p.terminalId).filter(id => id !== null)\<close>.
\<close>

definition existingTerminalIds :: "SplitPanelState list \<Rightarrow> string option list" where
  "existingTerminalIds currentPanels = filter (\<lambda>i. i \<noteq> None) (map terminalId currentPanels)"

definition setSplitLayout :: "string \<Rightarrow> AppState \<Rightarrow> AppState" where
  "setSplitLayout layoutId' st =
     (case find (\<lambda>l. id_layout l = layoutId') SPLIT_LAYOUTS of
        None \<Rightarrow> st
      | Some layout \<Rightarrow>
          (let currentPanels = panels (splitLayout st);
               panels' = map (\<lambda>(index, ratio').
                    \<lparr>id_panel = ''panel-'' @ string_of_index index,
                     terminalId = nullish (js_index (existingTerminalIds currentPanels) index)
                        (if index = 0 \<and> length (existingTerminalIds currentPanels) = 0
                         then Some (activeTerminalId st) else None),
                     ratio = ratio'\<rparr>) (List.enumerate 0 (defaultRatios layout))
           in st\<lparr>splitLayout := \<lparr>layoutId = layoutId', panels = panels',
                                  direction = direction_layout layout\<rparr>,
                 activePanelId := ''panel-0''\<rparr>))"

definition updatePanelRatios :: "rat list \<Rightarrow> AppState \<Rightarrow> AppState" where
  "updatePanelRatios ratios st =
     st\<lparr>splitLayout := (splitLayout st)\<lparr>panels :=
          map (\<lambda>(index, p). p\<lparr>ratio := (if index < length ratios then ratios ! index
                                           else ratio p)\<rparr>)
              (List.enumerate 0 (panels (splitLayout st)))\<rparr>\<rparr>"

definition assignTerminalToPanel :: "string \<Rightarrow> string \<Rightarrow> AppState \<Rightarrow> AppState" where
  "assignTerminalToPanel panelId terminalId' st =
     st\<lparr>splitLayout := (splitLayout st)\<lparr>panels :=
          map (\<lambda>p. if id_panel p = panelId then p\<lparr>terminalId := Some terminalId'\<rparr> else p)
              (panels (splitLayout st))\<rparr>\<rparr>"

definition swapTerminals :: "string \<Rightarrow> string \<Rightarrow> AppState \<Rightarrow> AppState" where
  "swapTerminals droppedTerminalId targetPanelId st =
     (let panels' = panels (splitLayout st);
          sourcePanel = find (\<lambda>p. terminalId p = Some droppedTerminalId) panels';
          targetPanel = find (\<lambda>p. id_panel p = targetPanelId) panels'
      in case targetPanel of
           None \<Rightarrow> st
         | Some tp \<Rightarrow>
            (let targetTerminalId = terminalId tp
             in st\<lparr>splitLayout := (splitLayout st)\<lparr>panels :=
                  map (\<lambda>p. if id_panel p = targetPanelId
                            then p\<lparr>terminalId := Some droppedTerminalId\<rparr>
                            else if (case sourcePanel of None \<Rightarrow> False
                                     | Some sp \<Rightarrow> id_panel p = id_panel sp)
                            then p\<lparr>terminalId := targetTerminalId\<rparr>
                            else p) panels'\<rparr>\<rparr>))"


text \<open>Layout states used as concrete inputs below.\<close>

definition halves_state :: AppState where
  "halves_state = initialAppState\<lparr>splitLayout :=
      \<lparr>layoutId = ''horizontal-2'',
       panels = [\<lparr>id_panel = ''panel-0'', terminalId = Some ''t1'', ratio = 50\<rparr>,
                 \<lparr>id_panel = ''panel-1'', terminalId = None, ratio = 50\<rparr>],
       direction = horizontal\<rparr>\<rparr>"

definition swap_state :: AppState where
  "swap_state = initialAppState\<lparr>splitLayout :=
      \<lparr>layoutId = ''horizontal-2'',
       panels = [\<lparr>id_panel = ''panel-0'', terminalId = Some ''X'', ratio = 50\<rparr>,
                 \<lparr>id_panel = ''panel-1'', terminalId = Some ''Y'', ratio = 50\<rparr>],
       direction = horizontal\<rparr>\<rparr>"

definition swap_dup_state :: AppState where
  "swap_dup_state = initialAppState\<lparr>splitLayout :=
      \<lparr>layoutId = ''horizontal-3'',
       panels = [\<lparr>id_panel = ''panel-0'', terminalId = Some ''X'', ratio = 33\<rparr>,
                 \<lparr>id_panel = ''panel-1'', terminalId = Some ''X'', ratio = 34\<rparr>,
                 \<lparr>id_panel = ''panel-2'', terminalId = Some ''Y'', ratio = 33\<rparr>],
       direction = horizontal\<rparr>\<rparr>"

definition one_tab_state :: AppState where
  "one_tab_state = initialAppState\<lparr>splitLayout :=
      \<lparr>layoutId = ''single'',
       panels = [\<lparr>id_panel = ''panel-0'', terminalId = Some ''t1'', ratio = 100\<rparr>],
       direction = horizontal\<rparr>\<rparr>"

section \<open>The access token (webAuth)\<close>

text \<open>
  The module variable \<open>accessToken\<close> is a \<open>string option\<close> (\<open>None\<close> is \<open>null\<close>);
  \<open>tokenGeneratedAt\<close> is a timestamp that nothing reads back and is left out. The
  bytes that \<open>crypto.randomBytes(32)\<close> returns are an argument. A string is a list of
  code units below 256.
\<close>

definition hex_alphabet :: string where
  "hex_alphabet = ''0123456789abcdef''"

definition hexdigit :: "nat \<Rightarrow> char" where
  "hexdigit n = hex_alphabet ! (n mod 16)"

text \<open>\<open>Buffer.toString('hex')\<close>: two lower-case hexadecimal digits for each byte.\<close>

definition toHex :: "8 word list \<Rightarrow> string" where
  "toHex bs = concat (map (\<lambda>b. [hexdigit (unat b div 16), hexdigit (unat b mod 16)]) bs)"

text \<open>\<open>generateToken\<close> returns the new token and the new value of \<open>accessToken\<close>.\<close>

definition generateToken :: "8 word list \<Rightarrow> string \<times> string option" where
  "generateToken randomBytes = (let t = toHex randomBytes in (t, Some t))"

definition regenerateToken :: "8 word list \<Rightarrow> string \<times> string option" where
  "regenerateToken randomBytes = generateToken randomBytes"

definition getToken :: "8 word list \<Rightarrow> string option \<Rightarrow> string \<times> string option" where
  "getToken randomBytes accessToken =
     (case accessToken of
        None \<Rightarrow> generateToken randomBytes
      | Some t \<Rightarrow> if t = [] then generateToken randomBytes else (t, Some t))"

text \<open>\<open>Buffer.from(string)\<close>: the UTF-8 bytes of the string's code units.\<close>

definition utf8_unit :: "char \<Rightarrow> nat list" where
  "utf8_unit c =
     (let n = (of_char c :: nat)
      in if n < 128 then [n] else [192 + n div 64, 128 + n mod 64])"

definition Buffer_from :: "string \<Rightarrow> nat list" where
  "Buffer_from str = concat (map utf8_unit str)"

text \<open>
  \<open>crypto.timingSafeEqual\<close> throws a RangeError on buffers of different byte length
  (\<open>None\<close>) and compares them otherwise.
\<close>

definition timingSafeEqual :: "nat list \<Rightarrow> nat list \<Rightarrow> bool option" where
  "timingSafeEqual a b = (if length a \<noteq> length b then None else Some (a = b))"

definition validateToken :: "string option \<Rightarrow> string \<Rightarrow> bool" where
  "validateToken accessToken token =
     (case accessToken of
        None \<Rightarrow> False
      | Some expected \<Rightarrow>
          if expected = [] \<or> token = [] then False
          else if length token \<noteq> length expected then False
          else (case timingSafeEqual (Buffer_from token) (Buffer_from expected) of
                  Some isValid \<Rightarrow> isValid
                | None \<Rightarrow> False))"


section \<open>The local terminal handlers (src/main/index.ts)\<close>

text \<open>
  A registry entry holds the PTY handle (an object identity, a number here) and the
  process id read from it.
\<close>

record TerminalEntry =
  pty :: nat
  pid :: nat

text \<open>
  What \<open>pty.spawn(shellPath, shellArgs, options)\<close> does is decided outside the
  program: it returns a handle with its pid, or throws. The outcome is an argument of the
  handler that spawns; the shell path, its arguments and the working directory only
  select what is passed to \<open>pty.spawn\<close> and are not part of the model.
\<close>

datatype spawn_result = Spawned nat nat | SpawnThrew string

text \<open>The reply of an IPC handler: \<open>{success: true}\<close> or \<open>{success: false, error}\<close>.\<close>

datatype ipc_result = Success | Failure string

text \<open>
  Every call that leaves the main process is appended to a log: the calls to node-pty
  (with the terminal id on whose behalf \<open>pty.spawn\<close> is called) and the messages that
  \<open>webContents.send\<close> delivers to the renderer.
\<close>

datatype effect =
    PtySpawn string
  | PtyWrite nat string
  | PtyResize nat nat nat
  | PtyKill nat
  | IpcData string string
  | IpcExit string int

text \<open>
  \<open>pty_loaded\<close>: \<open>require('@lydell/node-pty')\<close> succeeded (\<open>pty\<close> is not null).
  \<open>window_ok\<close>: the condition that \<open>safeSend\<close> tests, a main window that exists and
  is not destroyed, with \<open>send\<close> not throwing.
\<close>

record MainState =
  pty_loaded :: bool
  terminals :: "string \<rightharpoonup> TerminalEntry"
  pendingTerminals :: "string set"
  window_ok :: bool
  effects :: "effect list"

text \<open>\<open>Map.has\<close>.\<close>

definition has :: "('k \<rightharpoonup> 'v) \<Rightarrow> 'k \<Rightarrow> bool" where
  "has m k = (case m k of None \<Rightarrow> False | Some v \<Rightarrow> True)"

definition initialMainState :: MainState where
  "initialMainState =
     \<lparr>pty_loaded = True, terminals = Map.empty, pendingTerminals = {},
      window_ok = True, effects = []\<rparr>"

definition safeSend :: "effect \<Rightarrow> MainState \<Rightarrow> MainState" where
  "safeSend msg s = (if window_ok s then s\<lparr>effects := effects s @ [msg]\<rparr> else s)"

text \<open>The handler of \<open>terminal:create\<close>.\<close>

definition terminal_create :: "string \<Rightarrow> spawn_result \<Rightarrow> MainState \<Rightarrow> ipc_result \<times> MainState" where
  "terminal_create id' outcome s =
     (if \<not> pty_loaded s then (Failure ''node-pty not available'', s)
      else
        (let s1 = s\<lparr>effects := effects s @ [PtySpawn id']\<rparr>
         in case outcome of
              Spawned term pid' \<Rightarrow>
                (Success, s1\<lparr>terminals := (terminals s1)(id' \<mapsto> \<lparr>pty = term, pid = pid'\<rparr>)\<rparr>)
            | SpawnThrew err \<Rightarrow> (Failure err, s1)))"

text \<open>The callbacks that \<open>terminal:create\<close> registers on the spawned process.\<close>

definition create_onData :: "string \<Rightarrow> string \<Rightarrow> MainState \<Rightarrow> MainState" where
  "create_onData id' data s = safeSend (IpcData id' data) s"

definition create_onExit :: "string \<Rightarrow> nat \<Rightarrow> int \<Rightarrow> MainState \<Rightarrow> MainState" where
  "create_onExit id' pid' exitCode s =
     (case terminals s id' of
        None \<Rightarrow> s
      | Some entry \<Rightarrow>
          if pid entry = pid'
          then (let s1 = safeSend (IpcExit id' exitCode) s
                in s1\<lparr>terminals := (terminals s1)(id' := None)\<rparr>)
          else s)"

definition terminal_write :: "string \<Rightarrow> string \<Rightarrow> MainState \<Rightarrow> ipc_result \<times> MainState" where
  "terminal_write id' data s =
     (case terminals s id' of
        Some entry \<Rightarrow> (Success, s\<lparr>effects := effects s @ [PtyWrite (pty entry) data]\<rparr>)
      | None \<Rightarrow> (Failure ''Terminal not found'', s))"

definition terminal_resize :: "string \<Rightarrow> nat \<Rightarrow> nat \<Rightarrow> MainState \<Rightarrow> ipc_result \<times> MainState" where
  "terminal_resize id' cols rows s =
     (case terminals s id' of
        Some entry \<Rightarrow> (Success, s\<lparr>effects := effects s @ [PtyResize (pty entry) cols rows]\<rparr>)
      | None \<Rightarrow> (Failure ''Terminal not found'', s))"

definition terminal_kill :: "string \<Rightarrow> MainState \<Rightarrow> ipc_result \<times> MainState" where
  "terminal_kill id' s =
     (case terminals s id' of
        Some entry \<Rightarrow>
          (Success, s\<lparr>effects := effects s @ [PtyKill (pty entry)],
                      terminals := (terminals s)(id' := None)\<rparr>)
      | None \<Rightarrow> (Failure ''Terminal not found'', s))"

text \<open>
  The handler of \<open>terminal:runClaude\<close>. It opens a shell and sends no command to it
  (the source says so in a comment); it fails when node-pty is missing or
  \<open>pty.spawn\<close> throws.
\<close>

definition terminal_runClaude :: "string \<Rightarrow> spawn_result \<Rightarrow> MainState \<Rightarrow> ipc_result \<times> MainState" where
  "terminal_runClaude id' outcome s =
     (if \<not> pty_loaded s then (Failure ''node-pty not available'', s)
      else if has (terminals s) id' \<or> id' \<in> pendingTerminals s then (Success, s)
      else
        (let s1 = s\<lparr>pendingTerminals := insert id' (pendingTerminals s)\<rparr>;
             s2 = s1\<lparr>effects := effects s1 @ [PtySpawn id']\<rparr>
         in case outcome of
              Spawned term pid' \<Rightarrow>
                (Success, s2\<lparr>terminals := (terminals s2)(id' \<mapsto> \<lparr>pty = term, pid = pid'\<rparr>),
                             pendingTerminals := pendingTerminals s2 - {id'}\<rparr>)
            | SpawnThrew err \<Rightarrow>
                (Failure err, s2\<lparr>pendingTerminals := pendingTerminals s2 - {id'}\<rparr>)))"

definition runClaude_onData :: "string \<Rightarrow> nat \<Rightarrow> string \<Rightarrow> MainState \<Rightarrow> MainState" where
  "runClaude_onData id' pid' data s =
     (case terminals s id' of
        None \<Rightarrow> s
      | Some entry \<Rightarrow> if pid entry = pid' then safeSend (IpcData id' data) s else s)"

definition runClaude_onExit :: "string \<Rightarrow> nat \<Rightarrow> int \<Rightarrow> MainState \<Rightarrow> MainState" where
  "runClaude_onExit id' pid' exitCode s =
     (case terminals s id' of
        None \<Rightarrow> s
      | Some entry \<Rightarrow>
          if pid entry = pid'
          then (let s1 = safeSend (IpcExit id' exitCode) s
                in s1\<lparr>terminals := (terminals s1)(id' := None)\<rparr>)
          else s)"

text \<open>The number of \<open>pty.spawn\<close> calls made for a terminal id.\<close>

definition spawn_count :: "string \<Rightarrow> MainState \<Rightarrow> nat" where
  "spawn_count id' s = count_list (effects s) (PtySpawn id')"

section \<open>The terminal widget's start-up (XTerminal, \<open>initTerminal\<close>)\<close>

text \<open>
  The renderer's side: the module-level set \<open>initializedTerminals\<close>, whether
  \<open>window.electronAPI\<close> exists, what has been written to each terminal widget, and the
  ids whose data and exit listeners are subscribed. \<open>DevModeBanner\<close> stands for the fixed
  lines that the widget prints when there is no \<open>window.electronAPI\<close>.
\<close>

datatype xterm_out = Writeln string | DevModeBanner

record RendererState =
  initializedTerminals :: "string set"
  electronAPI :: bool
  xterm :: "(string \<times> xterm_out) list"
  listening :: "string set"

definition initialRendererState :: RendererState where
  "initialRendererState =
     \<lparr>initializedTerminals = {}, electronAPI = True, xterm = [], listening = {}\<rparr>"

definition ESC :: string where
  "ESC = [CHR 0x1B]"

definition writeln :: "string \<Rightarrow> string \<Rightarrow> RendererState \<Rightarrow> RendererState" where
  "writeln terminalId' line r = r\<lparr>xterm := xterm r @ [(terminalId', Writeln line)]\<rparr>"

definition claude_failed_line :: "string \<Rightarrow> string" where
  "claude_failed_line err = ESC @ ''[31mFailed to start Claude: '' @ err @ ESC @ ''[0m''"

definition shell_failed_line :: "string \<Rightarrow> string" where
  "shell_failed_line err = ESC @ ''[31mFailed to start shell: '' @ err @ ESC @ ''[0m''"

text \<open>
  \<open>initTerminal\<close>, with the two IPC calls it awaits run one after the other; the
  outcomes of the two possible \<open>pty.spawn\<close> calls are arguments.
\<close>

definition initTerminal ::
  "string \<Rightarrow> spawn_result \<Rightarrow> spawn_result \<Rightarrow> RendererState \<times> MainState \<Rightarrow> RendererState \<times> MainState" where
  "initTerminal terminalId' outcome1 outcome2 rm =
     (let r = fst rm; m = snd rm
      in if terminalId' \<in> initializedTerminals r then (r, m)
         else
           (let r1 = r\<lparr>initializedTerminals := insert terminalId' (initializedTerminals r)\<rparr>
            in if electronAPI r1
               then
                 (case terminal_runClaude terminalId' outcome1 m of
                    (Success, m1) \<Rightarrow>
                      (r1\<lparr>listening := insert terminalId' (listening r1)\<rparr>, m1)
                  | (Failure err, m1) \<Rightarrow>
                      (let r2 = writeln terminalId' (claude_failed_line err) r1;
                           r3 = writeln terminalId'
                                  (ESC @ ''[33mMake sure Claude Code CLI is installed and in your PATH.''
                                       @ ESC @ ''[0m'') r2;
                           r4 = writeln terminalId' [] r3;
                           r5 = writeln terminalId'
                                  ''To install Claude Code: npm install -g @anthropic/claude-code'' r4;
                           r6 = writeln terminalId' [] r5
                       in case terminal_create terminalId' outcome2 m1 of
                            (Success, m2) \<Rightarrow>
                              (r6\<lparr>listening := insert terminalId' (listening r6)\<rparr>, m2)
                          | (Failure err2, m2) \<Rightarrow>
                              (let r7 = writeln terminalId' (shell_failed_line err2) r6
                               in (r7\<lparr>listening := insert terminalId' (listening r7)\<rparr>, m2))))
               else (r1\<lparr>xterm := xterm r1 @ [(terminalId', DevModeBanner)]\<rparr>, m)))"

text \<open>Main-process states used as concrete inputs below.\<close>

definition no_pty_state :: MainState where
  "no_pty_state = initialMainState\<lparr>pty_loaded := False\<rparr>"

definition created_a_state :: MainState where
  "created_a_state = snd (terminal_create ''a'' (Spawned 1 101) initialMainState)"

definition recreated_a_state :: MainState where
  "recreated_a_state =
     snd (terminal_create ''a'' (Spawned 2 102) (snd (terminal_kill ''a'' created_a_state)))"


section \<open>The remote gateway (src/main/webTerminal.ts)\<close>

text \<open>
  A session of \<open>webTerminals\<close>; its socket is the key it is stored under. The fields
  \<open>pty\<close> and \<open>pid\<close> of the source are \<open>pty_web\<close> and \<open>pid_web\<close>.
\<close>

record WebTerminalSession =
  pty_web :: nat
  pid_web :: nat

text \<open>The closure variables of one accepted connection.\<close>

record Connection =
  authenticated :: bool
  terminalSession :: "WebTerminalSession option"

text \<open>
  The messages of the \<open>error\<close> and \<open>auth_error\<close> events, by what they say:
  the capacity message carries the ceiling, the creation failure carries the error text.
\<close>

datatype message =
    MaxConnectionsReached nat
  | NoTokenProvided
  | InvalidAccessToken
  | NotAuthenticated
  | TerminalAlreadyExists
  | FailedToCreateTerminal string

datatype server_event =
    error_event message
  | auth_error message
  | auth_success
  | terminal_ready nat
  | terminal_data string
  | terminal_exit int
  | terminal_killed

text \<open>
  The log of the gateway's calls: \<open>socket.emit\<close> and \<open>socket.disconnect\<close> on a
  socket, and the calls to node-pty (\<open>WebSpawn\<close> with the socket, columns and rows).
\<close>

datatype web_effect =
    Emit string server_event
  | Disconnect string
  | WebSpawn string nat nat
  | WebWrite nat string
  | WebResize nat nat nat
  | WebKill nat

text \<open>
  \<open>webTerminals\<close> is a JavaScript Map: an association list in insertion order whose
  \<open>size\<close> is its length. \<open>connections\<close> holds the closure of every socket whose
  connection handler went past the capacity check, and so has its event handlers
  registered; \<open>processes\<close> maps the handle of every spawned PTY to its socket, for the
  callbacks registered on it.
\<close>

record GatewayState =
  currentEdition :: Edition
  accessToken :: "string option"
  webTerminals :: "(string \<times> WebTerminalSession) list"
  connections :: "string \<rightharpoonup> Connection"
  processes :: "nat \<rightharpoonup> string"
  web_log :: "web_effect list"

definition emit :: "string \<Rightarrow> server_event \<Rightarrow> GatewayState \<Rightarrow> GatewayState" where
  "emit socket ev s = s\<lparr>web_log := web_log s @ [Emit socket ev]\<rparr>"

definition disconnect :: "string \<Rightarrow> GatewayState \<Rightarrow> GatewayState" where
  "disconnect socket s = s\<lparr>web_log := web_log s @ [Disconnect socket]\<rparr>"

text \<open>
  The handler of \<open>io.on('connection')\<close>, which \<open>setupWebTerminalHandlers\<close> installs
  when node-pty is loaded.
\<close>

definition on_connection :: "string \<Rightarrow> GatewayState \<Rightarrow> GatewayState" where
  "on_connection socket s =
     (let maxConnections = getMaxConnections (currentEdition s)
      in if length (webTerminals s) \<ge> maxConnections
         then disconnect socket (emit socket (error_event (MaxConnectionsReached maxConnections)) s)
         else s\<lparr>connections := (connections s)(socket \<mapsto>
                   \<lparr>authenticated = False, terminalSession = None\<rparr>)\<rparr>)"

text \<open>
  The handlers below exist only on a socket with an entry in \<open>connections\<close>; an event
  on any other socket has no listener. A token that is \<open>undefined\<close> is \<open>None\<close>.
\<close>

definition on_auth :: "string \<Rightarrow> string option \<Rightarrow> GatewayState \<Rightarrow> GatewayState" where
  "on_auth socket token s =
     (case connections s socket of
        None \<Rightarrow> s
      | Some c \<Rightarrow>
          if authenticated c then s
          else if token = None \<or> token = Some [] then
            disconnect socket (emit socket (auth_error NoTokenProvided) s)
          else if \<not> validateToken (accessToken s) (the token) then
            disconnect socket (emit socket (auth_error InvalidAccessToken) s)
          else emit socket auth_success
                 (s\<lparr>connections := (connections s)(socket \<mapsto> c\<lparr>authenticated := True\<rparr>)\<rparr>))"

text \<open>\<open>data.cols || 120\<close>: a missing or zero number gives the default.\<close>

definition or_default :: "nat option \<Rightarrow> nat \<Rightarrow> nat" where
  "or_default v d = (case v of None \<Rightarrow> d | Some n \<Rightarrow> if n = 0 then d else n)"

definition on_create_terminal ::
  "string \<Rightarrow> nat option \<Rightarrow> nat option \<Rightarrow> spawn_result \<Rightarrow> GatewayState \<Rightarrow> GatewayState" where
  "on_create_terminal socket cols rows outcome s =
     (case connections s socket of
        None \<Rightarrow> s
      | Some c \<Rightarrow>
          if \<not> authenticated c then emit socket (error_event NotAuthenticated) s
          else if terminalSession c \<noteq> None then
            emit socket (error_event TerminalAlreadyExists) s
          else
            (let s1 = s\<lparr>web_log := web_log s @ [WebSpawn socket (or_default cols 120) (or_default rows 30)]\<rparr>
             in case outcome of
                  Spawned term pid' \<Rightarrow>
                    (let session = \<lparr>pty_web = term, pid_web = pid'\<rparr>
                     in emit socket (terminal_ready pid')
                          (s1\<lparr>connections := (connections s1)(socket \<mapsto>
                                  c\<lparr>terminalSession := Some session\<rparr>),
                               webTerminals := AList.update socket session (webTerminals s1),
                               processes := (processes s1)(term \<mapsto> socket)\<rparr>))
                | SpawnThrew err \<Rightarrow>
                    emit socket (error_event (FailedToCreateTerminal err)) s1))"

definition on_terminal_input :: "string \<Rightarrow> string \<Rightarrow> GatewayState \<Rightarrow> GatewayState" where
  "on_terminal_input socket data s =
     (case connections s socket of
        None \<Rightarrow> s
      | Some c \<Rightarrow>
          (case terminalSession c of
             None \<Rightarrow> s
           | Some session \<Rightarrow>
               if \<not> authenticated c then s
               else s\<lparr>web_log := web_log s @ [WebWrite (pty_web session) data]\<rparr>))"

definition on_terminal_resize :: "string \<Rightarrow> nat \<Rightarrow> nat \<Rightarrow> GatewayState \<Rightarrow> GatewayState" where
  "on_terminal_resize socket cols rows s =
     (case connections s socket of
        None \<Rightarrow> s
      | Some c \<Rightarrow>
          (case terminalSession c of
             None \<Rightarrow> s
           | Some session \<Rightarrow>
               if \<not> authenticated c then s
               else s\<lparr>web_log := web_log s @ [WebResize (pty_web session) cols rows]\<rparr>))"

definition cleanup :: "string \<Rightarrow> GatewayState \<Rightarrow> GatewayState" where
  "cleanup socket s =
     (case connections s socket of
        None \<Rightarrow> s
      | Some c \<Rightarrow>
          (case terminalSession c of
             None \<Rightarrow> s
           | Some session \<Rightarrow>
               s\<lparr>web_log := web_log s @ [WebKill (pty_web session)],
                 webTerminals := AList.delete socket (webTerminals s),
                 connections := (connections s)(socket \<mapsto> c\<lparr>terminalSession := None\<rparr>)\<rparr>))"

definition on_disconnect :: "string \<Rightarrow> GatewayState \<Rightarrow> GatewayState" where
  "on_disconnect socket s = cleanup socket s"

definition on_kill_terminal :: "string \<Rightarrow> GatewayState \<Rightarrow> GatewayState" where
  "on_kill_terminal socket s =
     (case connections s socket of
        None \<Rightarrow> s
      | Some c \<Rightarrow>
          if terminalSession c \<noteq> None then emit socket terminal_killed (cleanup socket s)
          else s)"

text \<open>
  The callbacks registered on a spawned PTY, found by its handle. They stay registered:
  nothing in the source removes them, neither \<open>cleanup\<close> nor the exit itself.
\<close>

definition web_onData :: "nat \<Rightarrow> string \<Rightarrow> GatewayState \<Rightarrow> GatewayState" where
  "web_onData term data s =
     (case processes s term of
        None \<Rightarrow> s
      | Some socket \<Rightarrow> emit socket (terminal_data data) s)"

definition web_onExit :: "nat \<Rightarrow> int \<Rightarrow> GatewayState \<Rightarrow> GatewayState" where
  "web_onExit term exitCode s =
     (case processes s term of
        None \<Rightarrow> s
      | Some socket \<Rightarrow> cleanup socket (emit socket (terminal_exit exitCode) s))"

text \<open>
  Everything that can happen to the gateway, one event at a time: a socket connecting,
  the client's events, the callbacks of a PTY, and the desktop side regenerating the token.
\<close>

datatype web_input =
    Connect string
  | Auth string "string option"
  | CreateTerminal string "nat option" "nat option" spawn_result
  | TerminalInput string string
  | TerminalResize string nat nat
  | SocketDisconnect string
  | KillTerminal string
  | PtyData nat string
  | PtyExit nat int
  | RegenerateToken "8 word list"

fun web_step :: "GatewayState \<Rightarrow> web_input \<Rightarrow> GatewayState" where
  "web_step s (Connect socket) = on_connection socket s"
| "web_step s (Auth socket token) = on_auth socket token s"
| "web_step s (CreateTerminal socket cols rows outcome) =
     on_create_terminal socket cols rows outcome s"
| "web_step s (TerminalInput socket data) = on_terminal_input socket data s"
| "web_step s (TerminalResize socket cols rows) = on_terminal_resize socket cols rows s"
| "web_step s (SocketDisconnect socket) = on_disconnect socket s"
| "web_step s (KillTerminal socket) = on_kill_terminal socket s"
| "web_step s (PtyData term data) = web_onData term data s"
| "web_step s (PtyExit term exitCode) = web_onExit term exitCode s"
| "web_step s (RegenerateToken randomBytes) = s\<lparr>accessToken := snd (regenerateToken randomBytes)\<rparr>"

definition web_run :: "GatewayState \<Rightarrow> web_input list \<Rightarrow> GatewayState" where
  "web_run s inputs = foldl web_step s inputs"


text \<open>Gateway states used as concrete inputs below.\<close>

definition initialGatewayState :: GatewayState where
  "initialGatewayState =
     \<lparr>currentEdition = community, accessToken = Some ''s3cret'', webTerminals = [],
      connections = Map.empty, processes = Map.empty, web_log = []\<rparr>"

definition one_remote_state :: GatewayState where
  "one_remote_state =
     web_run initialGatewayState
       [Connect ''A'', Auth ''A'' (Some ''s3cret''), CreateTerminal ''A'' None None (Spawned 1 101)]"


definition crowded_state :: GatewayState where
  "crowded_state =
     initialGatewayState\<lparr>currentEdition := enterprise,
        webTerminals := map (\<lambda>n. (string_of_index n, \<lparr>pty_web = n, pid_web = n\<rparr>)) [0..<999]\<rparr>"


section \<open>Properties of the layout store\<close>

subsection \<open>Ratios\<close>


lemma updatePanelRatios_panels:
  "panels (splitLayout (updatePanelRatios ratios st)) =
     map (\<lambda>(index, p). p\<lparr>ratio := (if index < length ratios then ratios ! index else ratio p)\<rparr>)
         (List.enumerate 0 (panels (splitLayout st)))"
  by (simp add: updatePanelRatios_def)

lemma updatePanelRatios_nth:
  assumes "i < length (panels (splitLayout st))"
  shows "panels (splitLayout (updatePanelRatios ratios st)) ! i =
           (panels (splitLayout st) ! i)\<lparr>ratio := (if i < length ratios then ratios ! i
                                                    else ratio (panels (splitLayout st) ! i))\<rparr>"
  using assms by (simp add: updatePanelRatios_panels nth_enumerate_eq)

text \<open>
  Claim C4, as the code has it. \<open>updatePanelRatios\<close> applies the given ratios by
  position and renormalizes nothing: for a ratio list as long as the panel list, the
  panels' ratios afterwards are exactly the given list, so they sum to whatever the given
  list sums to (100 only when the caller passes ratios that sum to 100, as the resize
  handlers do); panel ids, terminal assignments, layout id and direction are unchanged.
\<close>

theorem updatePanelRatios_positional:
  assumes "length ratios = length (panels (splitLayout st))"
  shows "map ratio (panels (splitLayout (updatePanelRatios ratios st))) = ratios
       \<and> sum_list (map ratio (panels (splitLayout (updatePanelRatios ratios st)))) = sum_list ratios
       \<and> map id_panel (panels (splitLayout (updatePanelRatios ratios st)))
           = map id_panel (panels (splitLayout st))
       \<and> map terminalId (panels (splitLayout (updatePanelRatios ratios st)))
           = map terminalId (panels (splitLayout st))
       \<and> layoutId (splitLayout (updatePanelRatios ratios st)) = layoutId (splitLayout st)
       \<and> direction (splitLayout (updatePanelRatios ratios st)) = direction (splitLayout st)"
proof -
  let ?ps = "panels (splitLayout st)"
  let ?ps' = "panels (splitLayout (updatePanelRatios ratios st))"
  have len: "length ?ps' = length ?ps"
    by (simp add: updatePanelRatios_panels)
  have r: "map ratio ?ps' = ratios"
    using assms len by (auto simp: list_eq_iff_nth_eq updatePanelRatios_nth)
  have i: "map id_panel ?ps' = map id_panel ?ps"
    using len by (auto simp: list_eq_iff_nth_eq updatePanelRatios_nth)
  have t: "map terminalId ?ps' = map terminalId ?ps"
    using len by (auto simp: list_eq_iff_nth_eq updatePanelRatios_nth)
  show ?thesis using r i t by (simp add: updatePanelRatios_def)
qed


text \<open>
  Claim C4 as stated fails: on a two-panel layout with ratios 50 and 50, the matching
  list [10, 10] leaves ratios that sum to 20, not to 100.
\<close>

theorem updatePanelRatios_sum_counterexample:
  "length [10, 10 :: rat] = length (panels (splitLayout halves_state))
   \<and> sum_list (map ratio (panels (splitLayout halves_state))) = 100
   \<and> sum_list (map ratio (panels (splitLayout (updatePanelRatios [10, 10] halves_state)))) = 20
   \<and> sum_list (map ratio (panels (splitLayout (updatePanelRatios [10, 10] halves_state)))) \<noteq> 100"
  by (simp add: halves_state_def updatePanelRatios_def initialAppState_def enumerate_eq_zip upt_rec)

text \<open>
  The positional update at a concrete layout.
\<close>

theorem updatePanelRatios_positional_witness:
  "map ratio (panels (splitLayout (updatePanelRatios [70, 30] halves_state))) = [70, 30]"
  using updatePanelRatios_positional [of "[70, 30]" halves_state]
  by (simp add: halves_state_def initialAppState_def)

subsection \<open>Swapping terminals\<close>


lemma find_first_nth:
  assumes "i < length xs" "P (xs ! i)" "\<forall>k<i. \<not> P (xs ! k)"
  shows "find P xs = Some (xs ! i)"
  using assms by (auto simp: find_Some_iff)

lemma find_none_set: "(\<forall>x\<in>set xs. \<not> P x) \<Longrightarrow> find P xs = None"
  by (simp add: find_None_iff)

lemma distinct_id_nth:
  assumes "distinct (map id_panel ps)" "i < length ps" "k < length ps"
  shows "id_panel (ps ! k) = id_panel (ps ! i) \<longleftrightarrow> k = i"
  using assms by (auto simp: distinct_conv_nth)

lemma find_target_panel:
  assumes "distinct (map id_panel ps)" "j < length ps"
  shows "find (\<lambda>p. id_panel p = id_panel (ps ! j)) ps = Some (ps ! j)"
proof (rule find_first_nth)
  show "j < length ps" by fact
  show "id_panel (ps ! j) = id_panel (ps ! j)" by simp
  show "\<forall>k<j. id_panel (ps ! k) \<noteq> id_panel (ps ! j)"
    using assms distinct_id_nth [of ps j] by auto
qed

lemma swapTerminals_panels_found:
  assumes "find (\<lambda>p. id_panel p = P2) (panels (splitLayout st)) = Some tp"
  shows "panels (splitLayout (swapTerminals X P2 st)) =
     map (\<lambda>p. if id_panel p = P2 then p\<lparr>terminalId := Some X\<rparr>
               else if (case find (\<lambda>p. terminalId p = Some X) (panels (splitLayout st)) of
                          None \<Rightarrow> False | Some sp \<Rightarrow> id_panel p = id_panel sp)
               then p\<lparr>terminalId := terminalId tp\<rparr> else p) (panels (splitLayout st))"
  using assms by (simp add: swapTerminals_def Let_def)

text \<open>
  Claim C8, as the code has it. In a layout whose panel ids are distinct, let the target
  panel \<open>P2\<close> be at position \<open>j\<close>. After \<open>swapTerminals X P2\<close> the target holds
  \<open>X\<close>, and ratios and panel ids are unchanged. If \<open>i\<close> is the first position whose panel
  holds \<open>X\<close>, that panel now holds what the target held before (which is \<open>X\<close> again
  when it is the target itself), and every panel other than these two is untouched. If no
  panel holds \<open>X\<close>, every panel other than the target is untouched. The target panel
  changes in its assignment only.
\<close>

theorem swapTerminals_true_swap:
  assumes dist: "distinct (map id_panel (panels (splitLayout st)))"
    and j: "j < length (panels (splitLayout st))"
    and P2: "id_panel (panels (splitLayout st) ! j) = P2"
  shows "length (panels (splitLayout (swapTerminals X P2 st))) = length (panels (splitLayout st))
    \<and> map ratio (panels (splitLayout (swapTerminals X P2 st))) = map ratio (panels (splitLayout st))
    \<and> map id_panel (panels (splitLayout (swapTerminals X P2 st)))
         = map id_panel (panels (splitLayout st))
    \<and> panels (splitLayout (swapTerminals X P2 st)) ! j
         = (panels (splitLayout st) ! j)\<lparr>terminalId := Some X\<rparr>
    \<and> (\<forall>i<length (panels (splitLayout st)).
          terminalId (panels (splitLayout st) ! i) = Some X
          \<and> (\<forall>k<i. terminalId (panels (splitLayout st) ! k) \<noteq> Some X)
          \<longrightarrow> terminalId (panels (splitLayout (swapTerminals X P2 st)) ! i)
                = terminalId (panels (splitLayout st) ! j)
            \<and> (\<forall>k<length (panels (splitLayout st)). k \<noteq> i \<and> k \<noteq> j
                 \<longrightarrow> panels (splitLayout (swapTerminals X P2 st)) ! k
                     = panels (splitLayout st) ! k))
    \<and> ((\<forall>p\<in>set (panels (splitLayout st)). terminalId p \<noteq> Some X)
          \<longrightarrow> (\<forall>k<length (panels (splitLayout st)). k \<noteq> j
                 \<longrightarrow> panels (splitLayout (swapTerminals X P2 st)) ! k
                     = panels (splitLayout st) ! k))"
proof -
  let ?ps = "panels (splitLayout st)"
  let ?ps' = "panels (splitLayout (swapTerminals X P2 st))"
  let ?src = "find (\<lambda>p. terminalId p = Some X) ?ps"
  let ?g = "\<lambda>p. if id_panel p = P2 then p\<lparr>terminalId := Some X\<rparr>
               else if (case ?src of None \<Rightarrow> False | Some sp \<Rightarrow> id_panel p = id_panel sp)
               then p\<lparr>terminalId := terminalId (?ps ! j)\<rparr> else p"
  have tgt: "find (\<lambda>p. id_panel p = P2) ?ps = Some (?ps ! j)"
    using find_target_panel [OF dist j] P2 by simp
  have ps': "?ps' = map ?g ?ps"
    by (rule swapTerminals_panels_found [OF tgt])
  have idj: "\<And>k. k < length ?ps \<Longrightarrow> id_panel (?ps ! k) = P2 \<longleftrightarrow> k = j"
    using distinct_id_nth [OF dist j] P2 by simp
  have len: "length ?ps' = length ?ps"
    by (simp add: ps')
  have rat: "map ratio ?ps' = map ratio ?ps"
    unfolding ps' by (rule nth_equalityI) (auto split: option.splits)
  have ids: "map id_panel ?ps' = map id_panel ?ps"
    unfolding ps' by (rule nth_equalityI) (auto split: option.splits)
  have atj: "?ps' ! j = (?ps ! j)\<lparr>terminalId := Some X\<rparr>"
    using j P2 by (simp add: ps')
  have swapped: "terminalId (?ps' ! i) = terminalId (?ps ! j)
        \<and> (\<forall>k<length ?ps. k \<noteq> i \<and> k \<noteq> j \<longrightarrow> ?ps' ! k = ?ps ! k)"
    if i: "i < length ?ps" and hold: "terminalId (?ps ! i) = Some X"
      and first: "\<forall>k<i. terminalId (?ps ! k) \<noteq> Some X" for i
  proof -
    have src: "?src = Some (?ps ! i)"
      using i hold first by (intro find_first_nth) auto
    have idi: "\<And>k. k < length ?ps \<Longrightarrow> id_panel (?ps ! k) = id_panel (?ps ! i) \<longleftrightarrow> k = i"
      using distinct_id_nth [OF dist i] by simp
    have a: "terminalId (?ps' ! i) = terminalId (?ps ! j)"
    proof (cases "i = j")
      case True
      with hold atj show ?thesis by simp
    next
      case False
      with i idj [OF i] show ?thesis by (simp add: ps' src)
    qed
    have b: "?ps' ! k = ?ps ! k" if "k < length ?ps" "k \<noteq> i" "k \<noteq> j" for k
      using that idj [of k] idi [of k] by (simp add: ps' src)
    show ?thesis using a b by blast
  qed
  have nohold: "?ps' ! k = ?ps ! k"
    if none: "\<forall>p\<in>set ?ps. terminalId p \<noteq> Some X" and k: "k < length ?ps" "k \<noteq> j" for k
  proof -
    have src: "?src = None"
      using none by (intro find_none_set) auto
    show ?thesis using k idj [of k] by (simp add: ps' src)
  qed
  show ?thesis
    using len rat ids atj swapped nohold by blast
qed



text \<open>
  The swap at a concrete layout: \<open>panel-0\<close> holds X and \<open>panel-1\<close> holds Y; dropping X
  on \<open>panel-1\<close> exchanges them, dropping X on its own \<open>panel-0\<close> leaves
  \<open>panel-1\<close> alone, and dropping a terminal Z that no panel holds leaves \<open>panel-0\<close>
  alone.
\<close>

theorem swapTerminals_true_swap_witness:
  "terminalId (panels (splitLayout (swapTerminals ''X'' ''panel-1'' swap_state)) ! 1) = Some ''X''
   \<and> terminalId (panels (splitLayout (swapTerminals ''X'' ''panel-1'' swap_state)) ! 0) = Some ''Y''
   \<and> panels (splitLayout (swapTerminals ''X'' ''panel-0'' swap_state)) ! 1
       = panels (splitLayout swap_state) ! 1
   \<and> panels (splitLayout (swapTerminals ''Z'' ''panel-1'' swap_state)) ! 0
       = panels (splitLayout swap_state) ! 0"
proof -
  have d: "distinct (map id_panel (panels (splitLayout swap_state)))"
    by (simp add: swap_state_def)
  have j: "1 < length (panels (splitLayout swap_state))"
    by (simp add: swap_state_def)
  have p: "id_panel (panels (splitLayout swap_state) ! 1) = ''panel-1''"
    by (simp add: swap_state_def)
  have ps: "panels (splitLayout swap_state) =
       [\<lparr>id_panel = ''panel-0'', terminalId = Some ''X'', ratio = 50\<rparr>,
        \<lparr>id_panel = ''panel-1'', terminalId = Some ''Y'', ratio = 50\<rparr>]"
    by (simp add: swap_state_def)
  have x: "terminalId (panels (splitLayout (swapTerminals ''X'' ''panel-1'' swap_state)) ! 1) = Some ''X''
    \<and> terminalId (panels (splitLayout (swapTerminals ''X'' ''panel-1'' swap_state)) ! 0) = Some ''Y''"
    using swapTerminals_true_swap [OF d j p, of "''X''"] by (simp add: ps)
  have z: "panels (splitLayout (swapTerminals ''Z'' ''panel-1'' swap_state)) ! 0
       = panels (splitLayout swap_state) ! 0"
    using swapTerminals_true_swap [OF d j p, of "''Z''"] by (simp add: ps)
  have j0: "0 < length (panels (splitLayout swap_state))"
    by (simp add: swap_state_def)
  have p0: "id_panel (panels (splitLayout swap_state) ! 0) = ''panel-0''"
    by (simp add: swap_state_def)
  have h: "terminalId (panels (splitLayout swap_state) ! 0) = Some ''X''
       \<and> (\<forall>k<0. terminalId (panels (splitLayout swap_state) ! k) \<noteq> Some ''X'')"
    by (simp add: ps)
  have "\<forall>k<length (panels (splitLayout swap_state)). k \<noteq> 0 \<and> k \<noteq> 0
          \<longrightarrow> panels (splitLayout (swapTerminals ''X'' ''panel-0'' swap_state)) ! k
              = panels (splitLayout swap_state) ! k"
    using swapTerminals_true_swap [OF d j0 p0, of "''X''"] j0 h by blast
  then have own: "panels (splitLayout (swapTerminals ''X'' ''panel-0'' swap_state)) ! 1
       = panels (splitLayout swap_state) ! 1"
    using j by simp
  show ?thesis using x z own by simp
qed

text \<open>
  Claim C8 as stated fails when X is shown in two panels: with \<open>panel-0\<close> and
  \<open>panel-1\<close> both holding X and \<open>panel-2\<close> holding Y, dropping X on \<open>panel-2\<close>
  leaves \<open>panel-1\<close> (a panel assigned X) holding X, not Y, and changes \<open>panel-0\<close>.
\<close>

theorem swapTerminals_duplicate_counterexample:
  "terminalId (panels (splitLayout swap_dup_state) ! 1) = Some ''X''
   \<and> terminalId (panels (splitLayout swap_dup_state) ! 2) = Some ''Y''
   \<and> id_panel (panels (splitLayout swap_dup_state) ! 2) = ''panel-2''
   \<and> terminalId (panels (splitLayout (swapTerminals ''X'' ''panel-2'' swap_dup_state)) ! 1)
        \<noteq> Some ''Y''
   \<and> panels (splitLayout (swapTerminals ''X'' ''panel-2'' swap_dup_state)) ! 0
        \<noteq> panels (splitLayout swap_dup_state) ! 0"
  by (simp add: swap_dup_state_def swapTerminals_def)

subsection \<open>Choosing a layout\<close>


lemma SPLIT_LAYOUTS_panel_count:
  "l \<in> set SPLIT_LAYOUTS \<Longrightarrow> length (defaultRatios l) = panels_layout l"
  by (auto simp: SPLIT_LAYOUTS_def)

lemma find_Some_mem: "find P xs = Some x \<Longrightarrow> x \<in> set xs"
  by (auto simp: find_Some_iff)

lemma find_horizontal_2:
  "find (\<lambda>l. id_layout l = ''horizontal-2'') SPLIT_LAYOUTS =
     Some \<lparr>id_layout = ''horizontal-2'', panels_layout = 2, direction_layout = horizontal,
           defaultRatios = [50, 50]\<rparr>"
  by (simp add: SPLIT_LAYOUTS_def)

lemma setSplitLayout_unknown:
  "find (\<lambda>l. id_layout l = lid) SPLIT_LAYOUTS = None \<Longrightarrow> setSplitLayout lid st = st"
  by (simp add: setSplitLayout_def)

lemma setSplitLayout_found:
  assumes "find (\<lambda>l. id_layout l = lid) SPLIT_LAYOUTS = Some layout"
  shows "setSplitLayout lid st =
     st\<lparr>splitLayout := \<lparr>layoutId = lid,
          panels = map (\<lambda>(index, ratio').
                    \<lparr>id_panel = ''panel-'' @ string_of_index index,
                     terminalId = nullish
                        (js_index (existingTerminalIds (panels (splitLayout st))) index)
                        (if index = 0 \<and> length (existingTerminalIds (panels (splitLayout st))) = 0
                         then Some (activeTerminalId st) else None),
                     ratio = ratio'\<rparr>) (List.enumerate 0 (defaultRatios layout)),
          direction = direction_layout layout\<rparr>,
        activePanelId := ''panel-0''\<rparr>"
  unfolding setSplitLayout_def Let_def assms by (simp only: option.case)

lemma nullish_index:
  assumes "\<forall>x\<in>set xs. x \<noteq> None"
  shows "nullish (js_index xs i) d = (if i < length xs then xs ! i else d)"
proof (cases "i < length xs")
  case True
  then have "xs ! i \<in> set xs" by simp
  with assms obtain v where "xs ! i = Some v" by auto
  with True show ?thesis by (simp add: nullish_def js_index_def)
next
  case False
  then show ?thesis by (simp add: nullish_def js_index_def)
qed

text \<open>
  Claim C9, as the code has it. For a layout id that names no template the state is
  unchanged. Otherwise the panel list is replaced by one slot per panel of the template,
  named \<open>panel-0\<close>, \<open>panel-1\<close>, ... and carrying the template's default ratios; the
  Nth previously assigned terminal (in panel order) goes to the Nth new panel and surplus
  assignments are dropped; a panel beyond the previous assignments is unassigned, except
  that the first panel receives the store's active terminal id when no panel had a
  terminal; the active panel becomes \<open>panel-0\<close>. In particular, with exactly one
  assigned terminal \<open>t1\<close>, \<open>horizontal-2\<close> gives \<open>panel-0\<close> with \<open>t1\<close>,
  \<open>panel-1\<close> unassigned, and ratios 50 and 50.
\<close>

theorem setSplitLayout_template:
  "(case find (\<lambda>l. id_layout l = lid) SPLIT_LAYOUTS of
      None \<Rightarrow> setSplitLayout lid st = st
    | Some layout \<Rightarrow>
        length (panels (splitLayout (setSplitLayout lid st))) = panels_layout layout
      \<and> map ratio (panels (splitLayout (setSplitLayout lid st))) = defaultRatios layout
      \<and> (\<forall>i<panels_layout layout.
            id_panel (panels (splitLayout (setSplitLayout lid st)) ! i)
               = ''panel-'' @ string_of_index i
          \<and> terminalId (panels (splitLayout (setSplitLayout lid st)) ! i)
               = (let existing = existingTerminalIds (panels (splitLayout st))
                  in if i < length existing then existing ! i
                     else if i = 0 then Some (activeTerminalId st) else None))
      \<and> activePanelId (setSplitLayout lid st) = ''panel-0''
      \<and> layoutId (splitLayout (setSplitLayout lid st)) = lid
      \<and> direction (splitLayout (setSplitLayout lid st)) = direction_layout layout
      \<and> activeTerminalId (setSplitLayout lid st) = activeTerminalId st)
   \<and> (existingTerminalIds (panels (splitLayout st)) = [Some t1]
        \<longrightarrow> panels (splitLayout (setSplitLayout ''horizontal-2'' st)) =
              [\<lparr>id_panel = ''panel-0'', terminalId = Some t1, ratio = 50\<rparr>,
               \<lparr>id_panel = ''panel-1'', terminalId = None, ratio = 50\<rparr>])"
proof -
  let ?ex = "existingTerminalIds (panels (splitLayout st))"
  have ex: "\<forall>x\<in>set ?ex. x \<noteq> None" by (simp add: existingTerminalIds_def)
  have general: "length (panels (splitLayout (setSplitLayout lid st))) = panels_layout layout
      \<and> map ratio (panels (splitLayout (setSplitLayout lid st))) = defaultRatios layout
      \<and> (\<forall>i<panels_layout layout.
            id_panel (panels (splitLayout (setSplitLayout lid st)) ! i)
               = ''panel-'' @ string_of_index i
          \<and> terminalId (panels (splitLayout (setSplitLayout lid st)) ! i)
               = (let existing = ?ex
                  in if i < length existing then existing ! i
                     else if i = 0 then Some (activeTerminalId st) else None))
      \<and> activePanelId (setSplitLayout lid st) = ''panel-0''
      \<and> layoutId (splitLayout (setSplitLayout lid st)) = lid
      \<and> direction (splitLayout (setSplitLayout lid st)) = direction_layout layout
      \<and> activeTerminalId (setSplitLayout lid st) = activeTerminalId st"
    if f: "find (\<lambda>l. id_layout l = lid) SPLIT_LAYOUTS = Some layout" for layout
  proof -
    note eq = setSplitLayout_found [OF f, of st]
    have n: "length (defaultRatios layout) = panels_layout layout"
      using find_Some_mem [OF f] by (rule SPLIT_LAYOUTS_panel_count)
    have len: "length (panels (splitLayout (setSplitLayout lid st))) = panels_layout layout"
      by (simp add: eq n)
    have rat: "map ratio (panels (splitLayout (setSplitLayout lid st))) = defaultRatios layout"
      unfolding eq by (rule nth_equalityI) (auto simp: nth_enumerate_eq)
    have slot: "id_panel (panels (splitLayout (setSplitLayout lid st)) ! i)
               = ''panel-'' @ string_of_index i
          \<and> terminalId (panels (splitLayout (setSplitLayout lid st)) ! i)
               = (let existing = ?ex
                  in if i < length existing then existing ! i
                     else if i = 0 then Some (activeTerminalId st) else None)"
      if "i < panels_layout layout" for i
      using that n by (auto simp: eq nth_enumerate_eq nullish_index [OF ex] Let_def)
    have rest: "activePanelId (setSplitLayout lid st) = ''panel-0''
      \<and> layoutId (splitLayout (setSplitLayout lid st)) = lid
      \<and> direction (splitLayout (setSplitLayout lid st)) = direction_layout layout
      \<and> activeTerminalId (setSplitLayout lid st) = activeTerminalId st"
      by (simp add: eq)
    show ?thesis using len rat slot rest by blast
  qed
  have scenario: "panels (splitLayout (setSplitLayout ''horizontal-2'' st)) =
              [\<lparr>id_panel = ''panel-0'', terminalId = Some t1, ratio = 50\<rparr>,
               \<lparr>id_panel = ''panel-1'', terminalId = None, ratio = 50\<rparr>]"
    if "?ex = [Some t1]"
    using that
    by (simp add: setSplitLayout_found [OF find_horizontal_2] enumerate_eq_zip upt_rec
          nullish_def js_index_def string_of_index.simps)
  show ?thesis
    using general scenario setSplitLayout_unknown [of lid st]
    by (auto split: option.splits)
qed


text \<open>
  The scenario of the claim at a concrete store state, and an unknown layout id.
\<close>

theorem setSplitLayout_template_witness:
  "panels (splitLayout (setSplitLayout ''horizontal-2'' one_tab_state)) =
              [\<lparr>id_panel = ''panel-0'', terminalId = Some ''t1'', ratio = 50\<rparr>,
               \<lparr>id_panel = ''panel-1'', terminalId = None, ratio = 50\<rparr>]
   \<and> activePanelId (setSplitLayout ''horizontal-2'' one_tab_state) = ''panel-0''
   \<and> setSplitLayout ''no-such-layout'' one_tab_state = one_tab_state"
proof -
  have e: "existingTerminalIds (panels (splitLayout one_tab_state))
             = [Some ''t1'']"
    by (simp add: one_tab_state_def existingTerminalIds_def)
  have a: "panels (splitLayout (setSplitLayout ''horizontal-2'' one_tab_state)) =
              [\<lparr>id_panel = ''panel-0'', terminalId = Some ''t1'', ratio = 50\<rparr>,
               \<lparr>id_panel = ''panel-1'', terminalId = None, ratio = 50\<rparr>]
         \<and> activePanelId (setSplitLayout ''horizontal-2'' one_tab_state) = ''panel-0''"
    using setSplitLayout_template [of "''horizontal-2''" one_tab_state "''t1''"] e
    by (simp add: find_horizontal_2)
  have n: "find (\<lambda>l. id_layout l = ''no-such-layout'') SPLIT_LAYOUTS = None"
    by (simp add: SPLIT_LAYOUTS_def)
  have b: "setSplitLayout ''no-such-layout'' one_tab_state = one_tab_state"
    using setSplitLayout_template [of "''no-such-layout''" one_tab_state "''t1''"] n
    by simp
  show ?thesis using a b by simp
qed

text \<open>
  Claim C9 as stated fails on the store's initial state, where no panel has a terminal:
  choosing \<open>horizontal-2\<close> assigns the active terminal id \<open>default\<close> to
  \<open>panel-0\<close> instead of leaving it unassigned.
\<close>

theorem setSplitLayout_unassigned_counterexample:
  "map terminalId (panels (splitLayout initialAppState)) = [None]
   \<and> map terminalId (panels (splitLayout (setSplitLayout ''horizontal-2'' initialAppState)))
        = [Some ''default'', None]"
  by (simp add: setSplitLayout_found [OF find_horizontal_2] initialAppState_def
        enumerate_eq_zip upt_rec nullish_def js_index_def existingTerminalIds_def
        string_of_index.simps)


section \<open>Properties of the access token\<close>

lemma length_toHex: "length (toHex bs) = 2 * length bs"
  by (induction bs) (simp_all add: toHex_def)

lemma hexdigit_in_alphabet: "hexdigit n \<in> set hex_alphabet"
  unfolding hexdigit_def by (rule nth_mem) (simp add: hex_alphabet_def)

lemma set_toHex: "set (toHex bs) \<subseteq> set hex_alphabet"
proof (induction bs)
  case Nil
  show ?case by (simp add: toHex_def)
next
  case (Cons b bs)
  have "toHex (b # bs) = hexdigit (unat b div 16) # hexdigit (unat b mod 16) # toHex bs"
    by (simp add: toHex_def)
  then show ?case using Cons.IH by (simp add: hexdigit_in_alphabet)
qed

lemma utf8_unit_not_Nil: "utf8_unit c \<noteq> []"
  by (simp add: utf8_unit_def Let_def)

lemma utf8_unit_prefix_inj:
  assumes "utf8_unit x @ xs = utf8_unit y @ ys"
  shows "x = y \<and> xs = ys"
proof -
  let ?n = "of_char x :: nat" and ?m = "of_char y :: nat"
  have "?n = ?m \<and> xs = ys"
  proof (cases "?n < 128")
    case nx: True
    show ?thesis
    proof (cases "?m < 128")
      case True
      with nx assms show ?thesis by (simp add: utf8_unit_def Let_def)
    next
      case False
      with nx assms show ?thesis by (simp add: utf8_unit_def Let_def)
    qed
  next
    case nx: False
    show ?thesis
    proof (cases "?m < 128")
      case True
      with nx assms show ?thesis by (simp add: utf8_unit_def Let_def)
    next
      case False
      with nx assms have d: "?n div 64 = ?m div 64" and m: "?n mod 64 = ?m mod 64"
        and t: "xs = ys"
        by (simp_all add: utf8_unit_def Let_def)
      have "?n = ?m"
        using d m by (metis div_mult_mod_eq)
      with t show ?thesis by simp
    qed
  qed
  then show ?thesis by simp
qed

lemma Buffer_from_inj: "Buffer_from xs = Buffer_from ys \<Longrightarrow> xs = ys"
proof (induction xs arbitrary: ys)
  case Nil
  then show ?case
    by (cases ys) (simp_all add: Buffer_from_def utf8_unit_not_Nil)
next
  case (Cons x xs)
  show ?case
  proof (cases ys)
    case Nil
    with Cons.prems show ?thesis by (simp add: Buffer_from_def utf8_unit_not_Nil)
  next
    case (Cons y ys')
    with Cons.prems have "utf8_unit x @ Buffer_from xs = utf8_unit y @ Buffer_from ys'"
      by (simp add: Buffer_from_def)
    then have "x = y \<and> Buffer_from xs = Buffer_from ys'"
      by (rule utf8_unit_prefix_inj)
    with Cons.IH Cons show ?thesis by simp
  qed
qed

lemma validateToken_iff:
  "validateToken (Some expected) token \<longleftrightarrow> token = expected \<and> expected \<noteq> []"
proof (cases "token = expected")
  case True
  then show ?thesis by (simp add: validateToken_def timingSafeEqual_def)
next
  case False
  then have "Buffer_from token \<noteq> Buffer_from expected"
    using Buffer_from_inj by blast
  with False show ?thesis by (simp add: validateToken_def timingSafeEqual_def)
qed

text \<open>
  Claim C6. After \<open>regenerateToken\<close>, whatever the 32 random bytes were, the new
  token validates, every other string (the previous token included, when it differs from
  the new one) does not, and the token is 64 characters long, all of them lower-case
  hexadecimal digits: exactly one token is valid.
\<close>

theorem regenerateToken_rotation:
  assumes "length randomBytes = 32"
  shows "validateToken (snd (regenerateToken randomBytes)) (fst (regenerateToken randomBytes))
       \<and> (\<forall>old. old \<noteq> fst (regenerateToken randomBytes)
              \<longrightarrow> \<not> validateToken (snd (regenerateToken randomBytes)) old)
       \<and> length (fst (regenerateToken randomBytes)) = 64
       \<and> set (fst (regenerateToken randomBytes)) \<subseteq> set hex_alphabet"
proof -
  have new: "fst (regenerateToken randomBytes) = toHex randomBytes"
    and st: "snd (regenerateToken randomBytes) = Some (toHex randomBytes)"
    by (simp_all add: regenerateToken_def generateToken_def Let_def)
  have len: "length (toHex randomBytes) = 64"
    using assms by (simp add: length_toHex)
  then have ne: "toHex randomBytes \<noteq> []" by auto
  show ?thesis
    using len ne set_toHex [of randomBytes] by (simp add: new st validateToken_iff)
qed

text \<open>
  A rotation with 32 bytes \<open>0xAB\<close>: the new token validates and a former token of
  64 zeros does not.
\<close>

theorem regenerateToken_rotation_witness:
  "validateToken (snd (regenerateToken (replicate 32 0xAB)))
      ''abababababababababababababababababababababababababababababababab''
   \<and> \<not> validateToken (snd (regenerateToken (replicate 32 0xAB)))
      ''0000000000000000000000000000000000000000000000000000000000000000''
   \<and> length (fst (regenerateToken (replicate 32 0xAB))) = 64"
proof -
  have l: "length (replicate 32 (0xAB :: 8 word)) = 32" by simp
  have t: "fst (regenerateToken (replicate 32 0xAB))
             = ''abababababababababababababababababababababababababababababababab''"
    by code_simp
  show ?thesis
    using regenerateToken_rotation [OF l] by (simp add: t)
qed

section \<open>Properties of the local terminal handlers\<close>

text \<open>
  Claim C1 does not hold of \<open>terminal:create\<close>. With terminal \<open>a\<close> registered
  (handle 1, pid 101) after one spawn, a second \<open>terminal:create\<close> for \<open>a\<close> reports
  success but calls \<open>pty.spawn\<close> again and overwrites the entry with the new handle and
  pid, without killing the first process. The sibling handler \<open>terminal:runClaude\<close>, on
  the same state, returns success and leaves the state as it is.
\<close>

theorem terminal_create_respawns:
  "terminals created_a_state ''a'' = Some \<lparr>pty = 1, pid = 101\<rparr>
   \<and> spawn_count ''a'' created_a_state = 1
   \<and> fst (terminal_create ''a'' (Spawned 2 102) created_a_state) = Success
   \<and> terminals (snd (terminal_create ''a'' (Spawned 2 102) created_a_state)) ''a''
        = Some \<lparr>pty = 2, pid = 102\<rparr>
   \<and> spawn_count ''a'' (snd (terminal_create ''a'' (Spawned 2 102) created_a_state)) = 2
   \<and> PtyKill 1 \<notin> set (effects (snd (terminal_create ''a'' (Spawned 2 102) created_a_state)))
   \<and> terminal_runClaude ''a'' (Spawned 2 102) created_a_state = (Success, created_a_state)"
  by (simp add: created_a_state_def terminal_create_def terminal_runClaude_def has_def
        initialMainState_def spawn_count_def Let_def)

lemma runClaude_onExit_eq: "runClaude_onExit = create_onExit"
  by (intro ext) (simp add: runClaude_onExit_def create_onExit_def)

lemma create_onExit_stale:
  assumes "terminals s i = None \<or> (\<exists>e. terminals s i = Some e \<and> pid e \<noteq> p)"
  shows "create_onExit i p code s = s"
  using assms by (auto simp: create_onExit_def)

lemma create_onExit_current:
  assumes "terminals s i = Some e" "pid e = p"
  shows "create_onExit i p code s =
           (safeSend (IpcExit i code) s)\<lparr>terminals := (terminals s)(i := None)\<rparr>"
  using assms by (simp add: create_onExit_def safeSend_def Let_def)

text \<open>
  Claim C2. The exit callbacks of \<open>terminal:create\<close> and \<open>terminal:runClaude\<close> are
  the same function. When the registry has no entry for the id, or its pid differs from
  the pid of the exiting process, the callback changes nothing: no deletion and no
  message. When the pids match, the exit message with the exit code is handed to
  \<open>safeSend\<close> and the entry is deleted; other entries stay, and the message is sent to
  the renderer exactly when the window is live.
\<close>

theorem onExit_pid_guard:
  "runClaude_onExit i p code s = create_onExit i p code s
   \<and> (terminals s i = None \<or> (\<exists>e. terminals s i = Some e \<and> pid e \<noteq> p)
        \<longrightarrow> create_onExit i p code s = s)
   \<and> ((\<exists>e. terminals s i = Some e \<and> pid e = p)
        \<longrightarrow> create_onExit i p code s
              = (safeSend (IpcExit i code) s)\<lparr>terminals := (terminals s)(i := None)\<rparr>
          \<and> terminals (create_onExit i p code s) i = None
          \<and> (\<forall>j. j \<noteq> i \<longrightarrow> terminals (create_onExit i p code s) j = terminals s j)
          \<and> (window_ok s \<longrightarrow> effects (create_onExit i p code s) = effects s @ [IpcExit i code])
          \<and> (\<not> window_ok s \<longrightarrow> effects (create_onExit i p code s) = effects s))"
proof -
  have a: "runClaude_onExit i p code s = create_onExit i p code s"
    by (simp add: runClaude_onExit_eq)
  have b: "create_onExit i p code s = s"
    if "terminals s i = None \<or> (\<exists>e. terminals s i = Some e \<and> pid e \<noteq> p)"
    using that by (rule create_onExit_stale)
  have c: "create_onExit i p code s
              = (safeSend (IpcExit i code) s)\<lparr>terminals := (terminals s)(i := None)\<rparr>
          \<and> terminals (create_onExit i p code s) i = None
          \<and> (\<forall>j. j \<noteq> i \<longrightarrow> terminals (create_onExit i p code s) j = terminals s j)
          \<and> (window_ok s \<longrightarrow> effects (create_onExit i p code s) = effects s @ [IpcExit i code])
          \<and> (\<not> window_ok s \<longrightarrow> effects (create_onExit i p code s) = effects s)"
    if "\<exists>e. terminals s i = Some e \<and> pid e = p"
  proof -
    from that obtain e where e: "terminals s i = Some e" "pid e = p" by blast
    show ?thesis
      by (simp add: create_onExit_current [OF e] safeSend_def)
  qed
  show ?thesis using a b c by blast
qed

text \<open>
  Kill and immediate re-create: terminal \<open>a\<close> was created with pid 101, killed, and
  created again with pid 102. The late exit of pid 101 changes nothing; the exit of pid 102
  deletes the entry and sends the exit message.
\<close>

theorem onExit_pid_guard_witness:
  "terminals recreated_a_state ''a'' = Some \<lparr>pty = 2, pid = 102\<rparr>
   \<and> create_onExit ''a'' 101 0 recreated_a_state = recreated_a_state
   \<and> runClaude_onExit ''a'' 101 0 recreated_a_state = recreated_a_state
   \<and> terminals (create_onExit ''a'' 102 0 recreated_a_state) ''a'' = None
   \<and> effects (create_onExit ''a'' 102 0 recreated_a_state)
        = effects recreated_a_state @ [IpcExit ''a'' 0]"
proof -
  have t: "terminals recreated_a_state ''a'' = Some \<lparr>pty = 2, pid = 102\<rparr>"
    by (simp add: recreated_a_state_def created_a_state_def terminal_create_def
          terminal_kill_def initialMainState_def Let_def)
  have w: "window_ok recreated_a_state"
    by (simp add: recreated_a_state_def created_a_state_def terminal_create_def
          terminal_kill_def initialMainState_def Let_def)
  have stale: "create_onExit ''a'' 101 0 recreated_a_state = recreated_a_state
      \<and> runClaude_onExit ''a'' 101 0 recreated_a_state = recreated_a_state"
    using onExit_pid_guard [of "''a''" 101 0 recreated_a_state] t by simp
  have current: "terminals (create_onExit ''a'' 102 0 recreated_a_state) ''a'' = None
      \<and> effects (create_onExit ''a'' 102 0 recreated_a_state)
           = effects recreated_a_state @ [IpcExit ''a'' 0]"
    using onExit_pid_guard [of "''a''" 102 0 recreated_a_state] t w
    by (simp add: safeSend_def)
  show ?thesis using t stale current by simp
qed

subsection \<open>The fallback shell\<close>

lemma terminal_runClaude_failure:
  assumes "fst (terminal_runClaude tid o1 m) = Failure err"
  shows "(\<not> pty_loaded m \<and> err = ''node-pty not available''
            \<and> snd (terminal_runClaude tid o1 m) = m)
       \<or> (pty_loaded m \<and> terminals m tid = None \<and> o1 = SpawnThrew err
            \<and> snd (terminal_runClaude tid o1 m) = m\<lparr>effects := effects m @ [PtySpawn tid]\<rparr>)"
proof (cases "pty_loaded m")
  case False
  with assms show ?thesis by (simp add: terminal_runClaude_def)
next
  case True
  show ?thesis
  proof (cases "has (terminals m) tid \<or> tid \<in> pendingTerminals m")
    case True
    with \<open>pty_loaded m\<close> assms show ?thesis by (simp add: terminal_runClaude_def)
  next
    case False
    then have n: "terminals m tid = None" and p: "tid \<notin> pendingTerminals m"
      by (auto simp: has_def split: option.splits)
    have i: "insert tid (pendingTerminals m) - {tid} = pendingTerminals m"
      using p by auto
    show ?thesis
    proof (cases o1)
      case (Spawned h q)
      with True False assms show ?thesis by (simp add: terminal_runClaude_def Let_def)
    next
      case (SpawnThrew e)
      with True False assms have "e = err" by (simp add: terminal_runClaude_def Let_def)
      with True False SpawnThrew n i show ?thesis
        by (simp add: terminal_runClaude_def Let_def)
    qed
  qed
qed

lemma initTerminal_failed:
  assumes "tid \<notin> initializedTerminals r" "electronAPI r"
    and "terminal_runClaude tid o1 m = (Failure err, m1)"
    and "terminal_create tid o2 m1 = (res, m2)"
  shows "snd (initTerminal tid o1 o2 (r, m)) = m2"
    and "xterm (fst (initTerminal tid o1 o2 (r, m))) =
           xterm r @ [(tid, Writeln (claude_failed_line err)),
              (tid, Writeln (ESC @ ''[33mMake sure Claude Code CLI is installed and in your PATH.''
                                 @ ESC @ ''[0m'')),
              (tid, Writeln []),
              (tid, Writeln ''To install Claude Code: npm install -g @anthropic/claude-code''),
              (tid, Writeln [])]
           @ (case res of Success \<Rightarrow> [] | Failure err2 \<Rightarrow> [(tid, Writeln (shell_failed_line err2))])"
  using assms by (auto simp: initTerminal_def Let_def writeln_def split: ipc_result.splits)

text \<open>
  Claim C3, as the code has it. When \<open>initTerminal\<close> runs for a terminal id for the first
  time, under Electron, and \<open>terminal:runClaude\<close> reports a failure, the widget is
  written a banner line that contains the failure reason, and \<open>terminal:create\<close> is
  called as the fallback. If that spawn succeeds, the registry holds the new shell's
  handle and pid under the id. If it throws, the id has no entry and a second line with
  the shell's failure is written; if node-pty is not loaded, the main state is unchanged
  and the second line reports that.
\<close>

theorem initTerminal_fallback:
  assumes fresh: "tid \<notin> initializedTerminals r" and api: "electronAPI r"
    and failed: "fst (terminal_runClaude tid o1 m) = Failure err"
  shows "(\<exists>pre post. claude_failed_line err = pre @ err @ post)
     \<and> (tid, Writeln (claude_failed_line err)) \<in> set (xterm (fst (initTerminal tid o1 o2 (r, m))))
     \<and> (\<forall>h p. pty_loaded m \<and> o2 = Spawned h p \<longrightarrow>
           terminals (snd (initTerminal tid o1 o2 (r, m))) tid = Some \<lparr>pty = h, pid = p\<rparr>)
     \<and> (\<forall>e2. pty_loaded m \<and> o2 = SpawnThrew e2 \<longrightarrow>
           terminals (snd (initTerminal tid o1 o2 (r, m))) tid = None
         \<and> (tid, Writeln (shell_failed_line e2))
              \<in> set (xterm (fst (initTerminal tid o1 o2 (r, m)))))
     \<and> (\<not> pty_loaded m \<longrightarrow>
           snd (initTerminal tid o1 o2 (r, m)) = m
         \<and> (tid, Writeln (shell_failed_line ''node-pty not available''))
              \<in> set (xterm (fst (initTerminal tid o1 o2 (r, m)))))"
proof -
  obtain m1 where rc: "terminal_runClaude tid o1 m = (Failure err, m1)"
    using failed by (cases "terminal_runClaude tid o1 m") simp
  obtain res m2 where tc: "terminal_create tid o2 m1 = (res, m2)"
    by (cases "terminal_create tid o2 m1")
  note st = initTerminal_failed(1) [OF fresh api rc tc]
  note xt = initTerminal_failed(2) [OF fresh api rc tc]
  have m1: "(\<not> pty_loaded m \<and> m1 = m)
       \<or> (pty_loaded m \<and> terminals m tid = None \<and> m1 = m\<lparr>effects := effects m @ [PtySpawn tid]\<rparr>)"
    using terminal_runClaude_failure [OF failed] rc by auto
  have contains: "\<exists>pre post. claude_failed_line err = pre @ err @ post"
    by (rule exI [of _ "ESC @ ''[31mFailed to start Claude: ''"], rule exI [of _ "ESC @ ''[0m''"])
       (simp add: claude_failed_line_def)
  have banner: "(tid, Writeln (claude_failed_line err))
        \<in> set (xterm (fst (initTerminal tid o1 o2 (r, m))))"
    by (simp add: xt)
  have ok: "terminals (snd (initTerminal tid o1 o2 (r, m))) tid = Some \<lparr>pty = h, pid = p\<rparr>"
    if "pty_loaded m" "o2 = Spawned h p" for h p
  proof -
    have "terminals m2 tid = Some \<lparr>pty = h, pid = p\<rparr>"
      using that m1 tc by (auto simp: terminal_create_def Let_def)
    then show ?thesis by (simp add: st)
  qed
  have threw: "terminals (snd (initTerminal tid o1 o2 (r, m))) tid = None
         \<and> (tid, Writeln (shell_failed_line e2))
              \<in> set (xterm (fst (initTerminal tid o1 o2 (r, m))))"
    if "pty_loaded m" "o2 = SpawnThrew e2" for e2
  proof -
    have "res = Failure e2" "terminals m2 tid = None"
      using that m1 tc by (auto simp: terminal_create_def Let_def)
    then show ?thesis by (simp add: st xt)
  qed
  have nopty: "snd (initTerminal tid o1 o2 (r, m)) = m
         \<and> (tid, Writeln (shell_failed_line ''node-pty not available''))
              \<in> set (xterm (fst (initTerminal tid o1 o2 (r, m))))"
    if "\<not> pty_loaded m"
  proof -
    have "res = Failure ''node-pty not available''" "m2 = m"
      using that m1 tc by (auto simp: terminal_create_def)
    then show ?thesis by (simp add: st xt)
  qed
  show ?thesis
  proof (intro conjI allI impI)
    show "\<exists>pre post. claude_failed_line err = pre @ err @ post" by (rule contains)
    show "(tid, Writeln (claude_failed_line err))
        \<in> set (xterm (fst (initTerminal tid o1 o2 (r, m))))" by (rule banner)
  next
    fix h p assume "pty_loaded m \<and> o2 = Spawned h p"
    then show "terminals (snd (initTerminal tid o1 o2 (r, m))) tid = Some \<lparr>pty = h, pid = p\<rparr>"
      using ok by simp
  next
    fix e2 assume a: "pty_loaded m \<and> o2 = SpawnThrew e2"
    then show "terminals (snd (initTerminal tid o1 o2 (r, m))) tid = None"
      using threw by simp
    from a show "(tid, Writeln (shell_failed_line e2))
              \<in> set (xterm (fst (initTerminal tid o1 o2 (r, m))))"
      using threw by simp
  next
    assume a: "\<not> pty_loaded m"
    then show "snd (initTerminal tid o1 o2 (r, m)) = m"
      using nopty by simp
    from a show "(tid, Writeln (shell_failed_line ''node-pty not available''))
              \<in> set (xterm (fst (initTerminal tid o1 o2 (r, m))))"
      using nopty by simp
  qed
qed


text \<open>
  The first spawn throws and the fallback spawn succeeds.
\<close>

theorem initTerminal_fallback_witness:
  "(''x'', Writeln (claude_failed_line ''Error: boom''))
      \<in> set (xterm (fst (initTerminal ''x'' (SpawnThrew ''Error: boom'') (Spawned 7 700)
                           (initialRendererState, initialMainState))))
   \<and> terminals (snd (initTerminal ''x'' (SpawnThrew ''Error: boom'') (Spawned 7 700)
                           (initialRendererState, initialMainState))) ''x''
        = Some \<lparr>pty = 7, pid = 700\<rparr>"
proof -
  have f: "''x'' \<notin> initializedTerminals initialRendererState"
    by (simp add: initialRendererState_def)
  have a: "electronAPI initialRendererState"
    by (simp add: initialRendererState_def)
  have c: "fst (terminal_runClaude ''x'' (SpawnThrew ''Error: boom'') initialMainState)
             = Failure ''Error: boom''"
    by (simp add: terminal_runClaude_def has_def initialMainState_def Let_def)
  have p: "pty_loaded initialMainState"
    by (simp add: initialMainState_def)
  show ?thesis
    using initTerminal_fallback [OF f a c, of "Spawned 7 700"] p by simp
qed

text \<open>
  Claim C3 as stated fails when the fallback spawn throws as well: the id is left without
  a registry entry.
\<close>

theorem initTerminal_no_shell_counterexample:
  "fst (terminal_runClaude ''x'' (SpawnThrew ''Error: spawn failed'') initialMainState)
      = Failure ''Error: spawn failed''
   \<and> terminals (snd (initTerminal ''x'' (SpawnThrew ''Error: spawn failed'')
                       (SpawnThrew ''Error: spawn failed'')
                       (initialRendererState, initialMainState))) ''x'' = None"
  by (simp add: initTerminal_def terminal_runClaude_def has_def terminal_create_def
        initialRendererState_def initialMainState_def Let_def writeln_def)

section \<open>Properties of the remote gateway\<close>

lemma getMaxConnections_enterprise: "getMaxConnections enterprise = 999"
  by (simp add: getMaxConnections_def)

lemma getMaxConnections_community: "getMaxConnections community = 1"
  by (simp add: getMaxConnections_def one_enat_def)

lemma getMaxConnections_pro: "getMaxConnections pro = 10"
  by (simp add: getMaxConnections_def numeral_eq_enat)

lemma on_connection_full:
  assumes "length (webTerminals s) \<ge> getMaxConnections (currentEdition s)"
  shows "on_connection socket s =
           s\<lparr>web_log := web_log s @ [Emit socket (error_event
                                   (MaxConnectionsReached (getMaxConnections (currentEdition s)))),
                               Disconnect socket]\<rparr>"
  using assms by (simp add: on_connection_def emit_def disconnect_def Let_def)

lemma on_connection_admitted:
  assumes "length (webTerminals s) < getMaxConnections (currentEdition s)"
  shows "on_connection socket s =
           s\<lparr>connections := (connections s)(socket \<mapsto>
                   \<lparr>authenticated = False, terminalSession = None\<rparr>)\<rparr>"
  using assms by (simp add: on_connection_def Let_def)

text \<open>
  Claim C10. \<open>getMaxConnections\<close> is 999 for the enterprise edition, whose limit is
  \<open>Infinity\<close>, and the configured limit for a finite one (1 for community, 10 for pro).
  Hence the enterprise edition too rejects a new connection, with an error and a
  disconnect, once 999 sessions are registered, and admits it below that.
\<close>

theorem getMaxConnections_ceiling:
  "getMaxConnections enterprise = 999
   \<and> getMaxConnections community = 1
   \<and> getMaxConnections pro = 10
   \<and> (maxRemoteConnections (EDITION_LIMITS e) = \<infinity> \<longrightarrow> getMaxConnections e = 999)
   \<and> (maxRemoteConnections (EDITION_LIMITS e) \<noteq> \<infinity>
        \<longrightarrow> enat (getMaxConnections e) = maxRemoteConnections (EDITION_LIMITS e))
   \<and> (currentEdition s = enterprise \<and> length (webTerminals s) \<ge> 999
        \<longrightarrow> on_connection socket s =
              s\<lparr>web_log := web_log s @ [Emit socket (error_event (MaxConnectionsReached 999)),
                                  Disconnect socket]\<rparr>)
   \<and> (currentEdition s = enterprise \<and> length (webTerminals s) < 999
        \<longrightarrow> connections (on_connection socket s) socket
              = Some \<lparr>authenticated = False, terminalSession = None\<rparr>)"
proof -
  have inf: "getMaxConnections e = 999" if "maxRemoteConnections (EDITION_LIMITS e) = \<infinity>"
    using that by (simp add: getMaxConnections_def)
  have fin: "enat (getMaxConnections e) = maxRemoteConnections (EDITION_LIMITS e)"
    if "maxRemoteConnections (EDITION_LIMITS e) \<noteq> \<infinity>"
    using that by (auto simp: getMaxConnections_def)
  have rej: "on_connection socket s =
              s\<lparr>web_log := web_log s @ [Emit socket (error_event (MaxConnectionsReached 999)),
                                  Disconnect socket]\<rparr>"
    if "currentEdition s = enterprise \<and> length (webTerminals s) \<ge> 999"
    using that on_connection_full [of s socket] by (simp add: getMaxConnections_enterprise)
  have adm: "connections (on_connection socket s) socket
              = Some \<lparr>authenticated = False, terminalSession = None\<rparr>"
    if "currentEdition s = enterprise \<and> length (webTerminals s) < 999"
    using that on_connection_admitted [of s socket] by (simp add: getMaxConnections_enterprise)
  show ?thesis
    using getMaxConnections_enterprise getMaxConnections_community getMaxConnections_pro
      inf fin rej adm
    by (intro conjI impI) simp_all
qed

text \<open>
  An enterprise gateway with 999 registered sessions rejects the next socket.
\<close>

theorem getMaxConnections_ceiling_witness:
  "length (webTerminals crowded_state) = 999
   \<and> on_connection ''socket-1000'' crowded_state =
        crowded_state\<lparr>web_log := web_log crowded_state @
           [Emit ''socket-1000'' (error_event (MaxConnectionsReached 999)),
            Disconnect ''socket-1000'']\<rparr>
   \<and> maxRemoteConnections (EDITION_LIMITS pro) \<noteq> \<infinity>
   \<and> enat (getMaxConnections pro) = maxRemoteConnections (EDITION_LIMITS pro)"
proof -
  have e: "currentEdition crowded_state = enterprise"
    by (simp add: crowded_state_def)
  have l: "length (webTerminals crowded_state) = 999"
    by (simp add: crowded_state_def)
  have p: "maxRemoteConnections (EDITION_LIMITS pro) \<noteq> \<infinity>"
    by (simp add: numeral_eq_enat)
  show ?thesis
    using getMaxConnections_ceiling [of pro crowded_state "''socket-1000''"] e l p
    by (simp add: numeral_eq_enat)
qed

lemma on_create_terminal_duplicate:
  assumes "connections s socket = Some c" "authenticated c" "terminalSession c = Some session"
  shows "on_create_terminal socket cols rows outcome s =
           s\<lparr>web_log := web_log s @ [Emit socket (error_event TerminalAlreadyExists)]\<rparr>"
  using assms by (simp add: on_create_terminal_def emit_def)

text \<open>
  Claim C7. On an authenticated socket that owns a terminal session, \<open>create_terminal\<close>
  emits the error event and does nothing else: no spawn, no disconnect, and the session,
  the registry of sessions and the connection are unchanged.
\<close>

theorem create_terminal_duplicate_rejected:
  assumes "connections s socket = Some c" "authenticated c" "terminalSession c = Some session"
  shows "web_log (on_create_terminal socket cols rows outcome s)
           = web_log s @ [Emit socket (error_event TerminalAlreadyExists)]
       \<and> connections (on_create_terminal socket cols rows outcome s) = connections s
       \<and> webTerminals (on_create_terminal socket cols rows outcome s) = webTerminals s
       \<and> processes (on_create_terminal socket cols rows outcome s) = processes s
       \<and> accessToken (on_create_terminal socket cols rows outcome s) = accessToken s
       \<and> currentEdition (on_create_terminal socket cols rows outcome s) = currentEdition s"
  by (simp add: on_create_terminal_duplicate [OF assms])

lemma one_remote_state_eq:
  "one_remote_state =
     \<lparr>currentEdition = community, accessToken = Some ''s3cret'',
      webTerminals = [(''A'', \<lparr>pty_web = 1, pid_web = 101\<rparr>)],
      connections = [''A'' \<mapsto> \<lparr>authenticated = True,
                                terminalSession = Some \<lparr>pty_web = 1, pid_web = 101\<rparr>\<rparr>],
      processes = [1 \<mapsto> ''A''],
      web_log = [Emit ''A'' auth_success, WebSpawn ''A'' 120 30, Emit ''A'' (terminal_ready 101)]\<rparr>"
  by (simp add: one_remote_state_def web_run_def initialGatewayState_def on_connection_def
        getMaxConnections_community on_auth_def validateToken_def timingSafeEqual_def
        emit_def on_create_terminal_def or_default_def Let_def)

text \<open>
  Socket \<open>A\<close> is authenticated and owns the terminal with pid 101; its second
  \<open>create_terminal\<close> only adds the error event.
\<close>

theorem create_terminal_duplicate_rejected_witness:
  "web_log (on_create_terminal ''A'' None None (Spawned 2 102) one_remote_state)
     = [Emit ''A'' auth_success, WebSpawn ''A'' 120 30, Emit ''A'' (terminal_ready 101),
        Emit ''A'' (error_event TerminalAlreadyExists)]
   \<and> webTerminals (on_create_terminal ''A'' None None (Spawned 2 102) one_remote_state)
     = [(''A'', \<lparr>pty_web = 1, pid_web = 101\<rparr>)]"
proof -
  have c: "connections one_remote_state ''A'' =
      Some \<lparr>authenticated = True, terminalSession = Some \<lparr>pty_web = 1, pid_web = 101\<rparr>\<rparr>"
    by (simp add: one_remote_state_eq)
  have a: "authenticated \<lparr>authenticated = True,
              terminalSession = Some \<lparr>pty_web = 1, pid_web = 101\<rparr>\<rparr>"
    by simp
  have t: "terminalSession \<lparr>authenticated = True,
              terminalSession = Some \<lparr>pty_web = 1, pid_web = 101\<rparr>\<rparr>
             = Some \<lparr>pty_web = 1, pid_web = 101\<rparr>"
    by simp
  show ?thesis
    using create_terminal_duplicate_rejected [OF c a t, of None None "Spawned 2 102"]
    by (simp add: one_remote_state_eq)
qed

subsection \<open>Capacity before authentication\<close>















end
